theory Spec2Isabelle
  imports Complex_Main
begin

section \<open>NumPy scalars\<close>

text \<open>
  The program computes with NumPy \<open>float64\<close> and \<open>complex128\<close> scalars. A scalar is
  modelled as \<open>'a np\<close> with \<open>'a\<close> the reals or the complex numbers: \<open>Val v\<close> is a
  finite value, taken exactly (rounding and overflow are not modelled), and
  \<open>NonFinite\<close> stands for every value with an \<open>inf\<close> or \<open>nan\<close> component. NumPy raises
  nothing on a division by zero or a domain error; it returns such a value, and every
  arithmetic operation the program applies to it gives such a value again.
\<close>

datatype 'a np = Val 'a | NonFinite

instantiation np :: (plus) plus
begin
fun plus_np :: "'a np \<Rightarrow> 'a np \<Rightarrow> 'a np" where
  "plus_np (Val a) (Val b) = Val (a + b)"
| "plus_np _ _ = NonFinite"
instance ..
end

instantiation np :: (minus) minus
begin
fun minus_np :: "'a np \<Rightarrow> 'a np \<Rightarrow> 'a np" where
  "minus_np (Val a) (Val b) = Val (a - b)"
| "minus_np _ _ = NonFinite"
instance ..
end

instantiation np :: (times) times
begin
fun times_np :: "'a np \<Rightarrow> 'a np \<Rightarrow> 'a np" where
  "times_np (Val a) (Val b) = Val (a * b)"
| "times_np _ _ = NonFinite"
instance ..
end

instantiation np :: (uminus) uminus
begin
fun uminus_np :: "'a np \<Rightarrow> 'a np" where
  "uminus_np (Val a) = Val (- a)"
| "uminus_np NonFinite = NonFinite"
instance ..
end

instance np :: (comm_semiring) comm_semiring
proof
  fix a b c :: "'a np"
  show "a + b + c = a + (b + c)"
    by (cases a; cases b; cases c) (simp_all add: add.assoc)
  show "a + b = b + a"
    by (cases a; cases b) (simp_all add: add.commute)
  show "a * b * c = a * (b * c)"
    by (cases a; cases b; cases c) (simp_all add: mult.assoc)
  show "a * b = b * a"
    by (cases a; cases b) (simp_all add: mult.commute)
  show "(a + b) * c = a * c + b * c"
    by (cases a; cases b; cases c) (simp_all add: distrib_right)
qed

text \<open>
  NumPy's true division: a zero divisor gives \<open>inf\<close> or \<open>nan\<close>, never an exception. The
  only non-finite divisor the program can meet is a \<open>nan\<close> (in \<open>FPSearch.generate\<close>), and
  the quotient is \<open>nan\<close> again.
\<close>

fun np_div :: "('a::field) np \<Rightarrow> 'a np \<Rightarrow> 'a np" where
  "np_div (Val a) (Val b) = (if b = 0 then NonFinite else Val (a / b))"
| "np_div _ _ = NonFinite"

text \<open>\<open>np.sqrt\<close> on a real argument: \<open>nan\<close> below zero.\<close>

fun np_sqrt :: "real np \<Rightarrow> real np" where
  "np_sqrt (Val x) = (if x < 0 then NonFinite else Val (sqrt x))"
| "np_sqrt NonFinite = NonFinite"

text \<open>A real scalar promoted to a complex one, as NumPy does in mixed arithmetic.\<close>

definition to_complex :: "real np \<Rightarrow> complex np" where
  "to_complex = map_np complex_of_real"

section \<open>The response engine (response.py)\<close>

datatype error =
    ResponseError string
  | IndexError
  | NameError
  | ValueError
  | ZeroDivisionError
  | Exception string

text \<open>A 2x2 array \<open>[[a, b], [c, d]]\<close>, a column \<open>[[u], [v]]\<close>, and the operator \<open>@\<close>.\<close>

datatype 'a mat2 = Mat2 'a 'a 'a 'a

datatype 'a col2 = Col2 'a 'a

fun matmul :: "('a::{plus,times}) mat2 \<Rightarrow> 'a mat2 \<Rightarrow> 'a mat2" where
  "matmul (Mat2 a b c d) (Mat2 e f g h) =
     Mat2 (a * e + b * g) (a * f + b * h) (c * e + d * g) (c * f + d * h)"

text \<open>\<open>(p.T @ U @ p)[0, 0]\<close>: the row \<open>p.T @ U\<close> first, then its product with \<open>p\<close>.\<close>

fun bilinear :: "('a::{plus,times}) col2 \<Rightarrow> 'a mat2 \<Rightarrow> 'a" where
  "bilinear (Col2 u v) (Mat2 a b c d) = (u * a + v * c) * u + (u * b + v * d) * v"

text \<open>The arrays the function builds for the two signal operators.\<close>

definition W_array :: "real \<Rightarrow> complex np mat2" where
  "W_array a =
     Mat2 (Val (complex_of_real a)) (Val \<i> * to_complex (np_sqrt (Val (1 - a\<^sup>2))))
          (Val \<i> * to_complex (np_sqrt (Val (1 - a\<^sup>2)))) (Val (complex_of_real a))"

definition phase_array :: "real \<Rightarrow> complex np mat2" where
  "phase_array phi =
     Mat2 (Val (exp (\<i> * complex_of_real phi))) (Val 0)
          (Val 0) (Val (exp (- \<i> * complex_of_real phi)))"

definition H :: "complex np mat2" where
  "H = Mat2 (Val (1 / complex_of_real (sqrt 2))) (Val (1 / complex_of_real (sqrt 2)))
            (Val (1 / complex_of_real (sqrt 2))) (Val (- 1 / complex_of_real (sqrt 2)))"

text \<open>
  \<open>signal_operator\<close> is a Python string. The chain \<open>if == "Wx" / elif == "Wz" / else raise\<close>
  defines \<open>sig_op\<close> and \<open>qsp_op\<close> for one of two operators or raises; the chain on
  \<open>measurement\<close> likewise builds \<open>p_state\<close> for one of two bases or raises.
\<close>

datatype signal_operator = Wx | Wz

datatype basis = Bx | Bz

fun sig_op :: "signal_operator \<Rightarrow> real \<Rightarrow> complex np mat2" where
  "sig_op Wx a = W_array a"
| "sig_op Wz a = matmul (matmul H (W_array a)) H"

fun qsp_op :: "signal_operator \<Rightarrow> real \<Rightarrow> complex np mat2" where
  "qsp_op Wx phi = phase_array phi"
| "qsp_op Wz phi = matmul (matmul H (phase_array phi)) H"

fun p_state :: "basis \<Rightarrow> complex np col2" where
  "p_state Bx = Col2 (Val (1 / complex_of_real (sqrt 2))) (Val (1 / complex_of_real (sqrt 2)))"
| "p_state Bz = Col2 (Val 1) (Val 0)"

text \<open>Lines 29-33: a missing measurement becomes the basis of the signal operator.\<close>

definition default_measurement :: "string \<Rightarrow> string option \<Rightarrow> string option" where
  "default_measurement signal_operator measurement =
     (case measurement of
        None \<Rightarrow>
          (if signal_operator = ''Wx'' then Some ''x''
           else if signal_operator = ''Wz'' then Some ''z''
           else None)
      | Some m \<Rightarrow> Some m)"

text \<open>Lines 37-58.\<close>

definition select_signal_operator :: "string \<Rightarrow> error + signal_operator" where
  "select_signal_operator signal_operator =
     (if signal_operator = ''Wx'' then Inr Wx
      else if signal_operator = ''Wz'' then Inr Wz
      else Inl (ResponseError (''Invalid signal_operator: '' @ signal_operator)))"

text \<open>Lines 60-67; \<open>format\<close> prints a missing measurement as \<open>None\<close>.\<close>

definition select_measurement :: "string option \<Rightarrow> error + basis" where
  "select_measurement measurement =
     (if measurement = Some ''x'' then Inr Bx
      else if measurement = Some ''z'' then Inr Bz
      else Inl (ResponseError (''Invalid measurement: '' @
             (case measurement of None \<Rightarrow> ''None'' | Some m \<Rightarrow> m))))"

text \<open>
  Lines 74-79, the loop over the samples. \<open>pmats[0]\<close> raises \<open>IndexError\<close> on an empty
  list; \<open>U @ W @ pm\<close> is \<open>(U @ W) @ pm\<close>.
\<close>

fun response_loop ::
  "signal_operator \<Rightarrow> basis \<Rightarrow> complex np mat2 list \<Rightarrow> real list \<Rightarrow> complex np list
     \<Rightarrow> error + complex np list" where
  "response_loop so b pmats [] pdat = Inr pdat"
| "response_loop so b pmats (a # adat) pdat =
     (case pmats of
        [] \<Rightarrow> Inl IndexError
      | pm0 # rest \<Rightarrow>
          (let W = sig_op so a;
               U = foldl (\<lambda>U pm. matmul (matmul U W) pm) pm0 rest
           in response_loop so b pmats adat (pdat @ [bilinear (p_state b) U])))"

record response =
  ret_adat :: "real list"
  ret_pdat :: "complex np list"
  ret_model :: "string \<times> string option"
  ret_phiset :: "real list"

definition ComputeQSPResponse ::
  "real list \<Rightarrow> real list \<Rightarrow> string \<Rightarrow> string option \<Rightarrow> error + response" where
  "ComputeQSPResponse adat phiset signal_operator measurement =
     (let measurement = default_measurement signal_operator measurement;
          model = (signal_operator, measurement)
      in case select_signal_operator signal_operator of
           Inl e \<Rightarrow> Inl e
         | Inr so \<Rightarrow>
             (case select_measurement measurement of
                Inl e \<Rightarrow> Inl e
              | Inr b \<Rightarrow>
                  (let pmats = map (qsp_op so) phiset
                   in case response_loop so b pmats adat [] of
                        Inl e \<Rightarrow> Inl e
                      | Inr pdat \<Rightarrow>
                          Inr \<lparr>ret_adat = adat, ret_pdat = pdat,
                               ret_model = model, ret_phiset = phiset\<rparr>)))"







fun so_name :: "signal_operator \<Rightarrow> string" where
  "so_name Wx = ''Wx''"
| "so_name Wz = ''Wz''"

fun basis_name :: "basis \<Rightarrow> string" where
  "basis_name Bx = ''x''"
| "basis_name Bz = ''z''"

fun native :: "signal_operator \<Rightarrow> basis" where
  "native Wx = Bx"
| "native Wz = Bz"

section \<open>Phase generators (phases.py)\<close>

text \<open>
  Indexing as Python and NumPy do it: a negative index counts from the end, and an
  index outside the sequence raises \<open>IndexError\<close>.
\<close>

definition py_index :: "nat \<Rightarrow> int \<Rightarrow> nat option" where
  "py_index n i =
     (if 0 \<le> i \<and> i < int n then Some (nat i)
      else if i < 0 \<and> - int n \<le> i then Some (nat (int n + i))
      else None)"

definition getitem :: "'a list \<Rightarrow> int \<Rightarrow> error + 'a" where
  "getitem xs i = (case py_index (length xs) i of None \<Rightarrow> Inl IndexError | Some j \<Rightarrow> Inr (xs ! j))"

definition setitem :: "'a list \<Rightarrow> int \<Rightarrow> 'a \<Rightarrow> error + 'a list" where
  "setitem xs i v =
     (case py_index (length xs) i of None \<Rightarrow> Inl IndexError | Some j \<Rightarrow> Inr (xs[j := v]))"

subsection \<open>NumPy functions used by FPSearch\<close>

text \<open>\<open>np.arccosh\<close> is \<open>nan\<close> below one; \<open>np.cosh\<close> and \<open>np.tan\<close> keep a finite value finite.\<close>

fun np_arccosh :: "real np \<Rightarrow> real np" where
  "np_arccosh (Val x) = (if x < 1 then NonFinite else Val (arcosh x))"
| "np_arccosh NonFinite = NonFinite"

definition np_cosh :: "real np \<Rightarrow> real np" where
  "np_cosh = map_np cosh"

definition np_tan :: "real np \<Rightarrow> real np" where
  "np_tan = map_np tan"

text \<open>\<open>arctan2(y, x)\<close>, the angle of the point \<open>(x, y)\<close> in \<open>(-pi, pi]\<close>.\<close>

definition arctan2 :: "real \<Rightarrow> real \<Rightarrow> real" where
  "arctan2 y x =
     (if 0 < x then arctan (y / x)
      else if x < 0 \<and> 0 \<le> y then arctan (y / x) + pi
      else if x < 0 then arctan (y / x) - pi
      else if 0 < y then pi / 2
      else if y < 0 then - pi / 2
      else 0)"

text \<open>
  In \<open>FPSearch.generate\<close> a non-finite argument of \<open>np.arctan2\<close> is always a \<open>nan\<close>
  (the square root of a negative number, or the \<open>arccosh\<close> of a number below one), and
  the result is \<open>nan\<close> again.
\<close>

fun np_arctan2 :: "real np \<Rightarrow> real np \<Rightarrow> real np" where
  "np_arctan2 (Val y) (Val x) = Val (arctan2 y x)"
| "np_arctan2 _ _ = NonFinite"

subsection \<open>FPSearch\<close>

text \<open>
  The instance: \<open>verbose\<close> is set by the constructor; \<open>avec\<close> and \<open>bvec\<close> do not exist
  until \<open>generate\<close> assigns them.
\<close>

record FPSearch =
  self_verbose :: bool
  self_avec :: "real np list option"
  self_bvec :: "real np list option"

text \<open>
  Lines 64-68. \<open>delta\<close> and \<open>gamma\<close> are Python floats or \<open>None\<close>; \<open>1 / delta\<close> is Python's
  division and raises \<open>ZeroDivisionError\<close> for a zero \<open>delta\<close>; the rest is NumPy's.
\<close>

definition fp_gamma :: "int \<Rightarrow> real option \<Rightarrow> real option \<Rightarrow> error + real np" where
  "fp_gamma L delta gamma =
     (case gamma of
        Some g \<Rightarrow> Inr (Val g)
      | None \<Rightarrow>
          (let delta = (case delta of None \<Rightarrow> 0.1 | Some x \<Rightarrow> x)
           in if delta = 0 then Inl ZeroDivisionError
              else Inr (np_div (Val 1)
                     (np_cosh (Val (1 / real_of_int L) * np_arccosh (Val (1 / delta)))))))"

text \<open>Line 72, for \<open>kvec = np.arange(1, d + 1)\<close>.\<close>

definition fp_avec :: "int \<Rightarrow> int \<Rightarrow> real np \<Rightarrow> real np list" where
  "fp_avec d L sg =
     map (\<lambda>k. Val 2 * np_arctan2 (Val 1)
                 (np_tan (Val (2 * pi * real_of_int k / real_of_int L)) * sg))
         [1..d]"

text \<open>Lines 79-82, the loop \<open>for k in range(d)\<close> over the array \<open>phivec\<close>.\<close>

fun fp_assemble ::
  "int \<Rightarrow> real np list \<Rightarrow> real np list \<Rightarrow> int list \<Rightarrow> real np list \<Rightarrow> error + real np list"
  where
  "fp_assemble d avec bvec [] phivec = Inr phivec"
| "fp_assemble d avec bvec (k # ks) phivec =
     (case getitem avec (d - k - 1) of
        Inl e \<Rightarrow> Inl e
      | Inr a \<Rightarrow>
          (case setitem phivec (2 * k) (np_div (- a) (Val 2)) of
             Inl e \<Rightarrow> Inl e
           | Inr phivec \<Rightarrow>
               (case getitem bvec (d - k - 1) of
                  Inl e \<Rightarrow> Inl e
                | Inr b \<Rightarrow>
                    (case setitem phivec (2 * k + 1) (np_div b (Val 2)) of
                       Inl e \<Rightarrow> Inl e
                     | Inr phivec \<Rightarrow> fp_assemble d avec bvec ks phivec))))"

text \<open>One pass of the loop body when both indices are in range.\<close>

definition fp_store :: "int \<Rightarrow> real np list \<Rightarrow> real np list \<Rightarrow> real np list \<Rightarrow> int \<Rightarrow> real np list" where
  "fp_store d avec bvec phivec k =
     phivec[nat (2 * k) := np_div (- (avec ! nat (d - k - 1))) (Val 2),
            nat (2 * k + 1) := np_div (bvec ! nat (d - k - 1)) (Val 2)]"

text \<open>
  \<open>generate\<close> returns the value or the exception, and the instance as the call leaves
  it; \<open>d\<close> is the integer \<open>int(d)\<close> of line 59. \<open>np.zeros\<close> raises \<open>ValueError\<close> for a
  negative length; the two \<open>print\<close> calls are left out.
\<close>

definition FPSearch_generate ::
  "FPSearch \<Rightarrow> int \<Rightarrow> real option \<Rightarrow> real option \<Rightarrow> bool
     \<Rightarrow> (error + real np list) \<times> FPSearch" where
  "FPSearch_generate self d delta gamma return_alpha =
     (let L = 2 * d + 1
      in case fp_gamma L delta gamma of
           Inl e \<Rightarrow> (Inl e, self)
         | Inr gamma \<Rightarrow>
             (let sg = np_sqrt (Val 1 - gamma * gamma);
                  avec = fp_avec d L sg
              in if return_alpha then (Inr avec, self)
                 else
                   (let bvec = map uminus (rev avec);
                        self = self\<lparr>self_avec := Some avec, self_bvec := Some bvec\<rparr>
                    in if 2 * d < 0 then (Inl ValueError, self)
                       else (fp_assemble d avec bvec [0..d - 1]
                               (replicate (nat (2 * d)) (Val 0)), self))))"

text \<open>
  The formulas the specification gives for the construction, over the reals:
  \<open>gamma = 1 / cosh((1 / (2 d + 1)) arccosh(1 / delta))\<close> and
  \<open>avec_k = 2 atan2(1, tan(2 pi k / (2 d + 1)) sqrt(1 - gamma^2))\<close>.
\<close>

definition spec_gamma :: "int \<Rightarrow> real \<Rightarrow> real" where
  "spec_gamma d delta = 1 / cosh ((1 / (2 * real_of_int d + 1)) * arcosh (1 / delta))"

definition spec_alpha :: "int \<Rightarrow> real \<Rightarrow> int \<Rightarrow> real" where
  "spec_alpha d gamma k =
     2 * arctan2 1 (tan (2 * pi * real_of_int k / (2 * real_of_int d + 1)) * sqrt (1 - gamma\<^sup>2))"

subsection \<open>erf\_step\<close>

definition phi_n7_erf :: "real list" where
  "phi_n7_erf = [1.58019, 0.00172821, 0.251897, - 0.834542, - 0.834542, 0.251897,
                 0.00172821, 0.00939863]"

definition phi_n23_erf :: "real list" where
  "phi_n23_erf = [1.5708, 2.87883 / 10 ^ 8, 5.83909 / 10 ^ 7, 1.84144 / 10 ^ 6, 0.0000209995,
                  - 0.0000120126, 0.000564903, - 0.0022922, 0.0150024,
                  - 0.064666, 0.263754, - 0.926685, - 0.926912, 0.263756,
                  - 0.0645576, 0.014932, - 0.00225885, 0.000553565,
                  - (8.29284 / 10 ^ 6), 0.0000200459, 2.09476 / 10 ^ 6, 5.3026 / 10 ^ 7,
                  4.38578 / 10 ^ 8, 3.66401 / 10 ^ 9]"

text \<open>\<open>n\<close> is a Python number; \<open>n == 7\<close> holds for the integer and for the float alike.\<close>

definition erf_step_generate :: "real \<Rightarrow> error + real list" where
  "erf_step_generate n =
     (if n = 7 then Inr phi_n7_erf
      else if n = 23 then Inr phi_n23_erf
      else Inl (Exception ''[pyqsp.phases.erf_step] n must be 7 or 23''))"

subsection \<open>ExtractionSequence and SqrtSequence\<close>

text \<open>
  \<open>PolyExtraction\<close> (module \<open>poly\<close>) and \<open>QuantumSignalProcessingPhases\<close> (module
  \<open>angle_sequence\<close>) are parameters: each maps its arguments and the state of the
  program to an exception or to its value and the new state.
\<close>

definition ExtractionSequence_generate ::
  "(int \<Rightarrow> 'w \<Rightarrow> error + 'q \<times> 'w) \<Rightarrow> ('q \<Rightarrow> string \<Rightarrow> string \<Rightarrow> 'w \<Rightarrow> error + 'p \<times> 'w)
     \<Rightarrow> int \<Rightarrow> 'w \<Rightarrow> error + 'p \<times> 'w" where
  "ExtractionSequence_generate PolyExtraction_generate QuantumSignalProcessingPhases n w =
     (case PolyExtraction_generate n w of
        Inl e \<Rightarrow> Inl e
      | Inr (Q, w') \<Rightarrow> QuantumSignalProcessingPhases Q ''Q'' ''z'' w')"

definition SqrtSequence_generate ::
  "(int \<Rightarrow> 'w \<Rightarrow> error + 'q \<times> 'w) \<Rightarrow> ('q \<Rightarrow> string \<Rightarrow> string \<Rightarrow> 'w \<Rightarrow> error + 'p \<times> 'w)
     \<Rightarrow> int \<Rightarrow> 'w \<Rightarrow> error + 'p \<times> 'w" where
  "SqrtSequence_generate PolyExtraction_generate QuantumSignalProcessingPhases n w =
     (case PolyExtraction_generate n w of
        Inl e \<Rightarrow> Inl e
      | Inr (Q, w') \<Rightarrow> QuantumSignalProcessingPhases Q ''Q'' ''z'' w')"

subsection \<open>Chebyshev conversion\<close>

text \<open>
  \<open>scipy.special.chebyt(n).coef\<close> and \<open>chebyu(n).coef\<close>: the \<open>n + 1\<close> coefficients of
  the Chebyshev polynomials \<open>T\<^sub>n\<close> and \<open>U\<^sub>n\<close>, highest power first, by the recurrence
  \<open>p\<^sub>n\<^sub>+\<^sub>2 = 2 x p\<^sub>n\<^sub>+\<^sub>1 - p\<^sub>n\<close>.
\<close>

fun chebyt_coef :: "nat \<Rightarrow> real list" where
  "chebyt_coef 0 = [1]"
| "chebyt_coef (Suc 0) = [1, 0]"
| "chebyt_coef (Suc (Suc n)) =
     map2 (-) (map ((*) 2) (chebyt_coef (Suc n)) @ [0]) (0 # 0 # chebyt_coef n)"

fun chebyu_coef :: "nat \<Rightarrow> real list" where
  "chebyu_coef 0 = [1]"
| "chebyu_coef (Suc 0) = [2, 0]"
| "chebyu_coef (Suc (Suc n)) =
     map2 (-) (map ((*) 2) (chebyu_coef (Suc n)) @ [0]) (0 # 0 # chebyu_coef n)"

text \<open>Lines 148-151: \<open>cfunc\<close> is bound for the kinds \<open>T\<close> and \<open>U\<close> only.\<close>

definition cfunc_of_kind :: "string \<Rightarrow> (nat \<Rightarrow> real list) option" where
  "cfunc_of_kind kind =
     (if kind = ''T'' then Some (\<lambda>x. rev (chebyt_coef x))
      else if kind = ''U'' then Some (\<lambda>x. rev (chebyu_coef x))
      else None)"

text \<open>
  The subtraction of two one-dimensional arrays: elementwise for equal lengths, an
  array of length one is broadcast, any other pair of shapes raises \<open>ValueError\<close>.
\<close>

definition np_subtract :: "real np list \<Rightarrow> real np list \<Rightarrow> error + real np list" where
  "np_subtract P Q =
     (if length P = length Q then Inr (map2 (-) P Q)
      else if length Q = 1 then Inr (map (\<lambda>p. p - hd Q) P)
      else if length P = 1 then Inr (map (\<lambda>q. hd P - q) Q)
      else Inl ValueError)"

text \<open>
  Lines 155-160, the loop \<open>for l in range(deg, -1, -1)\<close> over the values of \<open>l\<close> still
  to come. A call of an unbound \<open>cfunc\<close> raises \<open>NameError\<close>; \<open>poly_term[len(poly_term)
  - 1]\<close> is the index \<open>-1\<close> on an empty list and raises \<open>IndexError\<close>.
\<close>

fun cheby_sweep ::
  "(nat \<Rightarrow> real list) option \<Rightarrow> int \<Rightarrow> nat list \<Rightarrow> real np list \<Rightarrow> real np list
     \<Rightarrow> error + real np list" where
  "cheby_sweep cfunc deg [] P C = Inr C"
| "cheby_sweep cfunc deg (l # ls) P C =
     (case getitem P (int l) of
        Inl e \<Rightarrow> Inl e
      | Inr r \<Rightarrow>
          (case cfunc of
             None \<Rightarrow> Inl NameError
           | Some cf \<Rightarrow>
               (let poly_term = cf l
                in case getitem poly_term (int (length poly_term) - 1) of
                     Inl e \<Rightarrow> Inl e
                   | Inr t \<Rightarrow>
                       (let c = np_div r (Val t)
                        in case np_subtract P
                                  (map (\<lambda>x. c * Val x) (cf l @ replicate (nat (deg - int l)) 0)) of
                             Inl e \<Rightarrow> Inl e
                           | Inr P' \<Rightarrow> cheby_sweep cfunc deg ls P' (C @ [c])))))"

text \<open>Lines 153-161 for a given \<open>cfunc\<close>, and the function itself.\<close>

definition cheby_convert :: "(nat \<Rightarrow> real list) option \<Rightarrow> real list \<Rightarrow> error + real np list" where
  "cheby_convert cfunc pcoefs =
     (let P = map Val pcoefs;
          deg = int (length P) - 1
      in case cheby_sweep cfunc deg (rev [0..<nat (deg + 1)]) P [] of
           Inl e \<Rightarrow> Inl e
         | Inr C \<Rightarrow> Inr (rev C))"

definition poly2chebyfn :: "real list \<Rightarrow> string \<Rightarrow> error + real np list" where
  "poly2chebyfn pcoefs kind = cheby_convert (cfunc_of_kind kind) pcoefs"

text \<open>
  The Chebyshev polynomials of the first and second kind as functions, and the value
  of a polynomial given by its coefficients, lowest power first.
\<close>

fun cheb_T :: "nat \<Rightarrow> real \<Rightarrow> real" where
  "cheb_T 0 x = 1"
| "cheb_T (Suc 0) x = x"
| "cheb_T (Suc (Suc n)) x = 2 * x * cheb_T (Suc n) x - cheb_T n x"

fun cheb_U :: "nat \<Rightarrow> real \<Rightarrow> real" where
  "cheb_U 0 x = 1"
| "cheb_U (Suc 0) x = 2 * x"
| "cheb_U (Suc (Suc n)) x = 2 * x * cheb_U (Suc n) x - cheb_U n x"




section \<open>Properties of the response engine\<close>


lemma select_so_name: "select_signal_operator (so_name so) = Inr so"
  by (cases so) (simp_all add: select_signal_operator_def)

lemma select_basis_name: "select_measurement (Some (basis_name b)) = Inr b"
  by (cases b) (simp_all add: select_measurement_def)

lemma default_native:
  "default_measurement (so_name so) None = Some (basis_name (native so))"
  by (cases so) (simp_all add: default_measurement_def)

lemma default_given: "default_measurement s (Some m) = Some m"
  by (simp add: default_measurement_def)










lemma ComputeQSPResponse_None:
  "ComputeQSPResponse adat phiset (so_name so) None =
   ComputeQSPResponse adat phiset (so_name so) (Some (basis_name (native so)))"
  by (simp add: ComputeQSPResponse_def default_native default_given)

text \<open>The only exception the loop over the samples can raise is the \<open>IndexError\<close>.\<close>

lemma response_loop_error:
  "response_loop so b pmats adat pdat = Inl e \<Longrightarrow> e = IndexError"
  by (induction adat arbitrary: pdat) (auto simp: Let_def split: list.splits)



text \<open>
  Claim C6. A signal operator other than \<open>Wx\<close> and \<open>Wz\<close>, with any measurement, and a
  valid signal operator with a measurement other than \<open>x\<close> and \<open>z\<close>, make the call
  raise \<open>ResponseError\<close> whatever \<open>adat\<close> and \<open>phiset\<close> are: the result is the error
  alone, no sample is evaluated. A missing measurement behaves as \<open>x\<close> for \<open>Wx\<close> and as
  \<open>z\<close> for \<open>Wz\<close>, and never raises \<open>ResponseError\<close>.
\<close>

theorem ComputeQSPResponse_invalid_configuration:
  "(signal_operator \<noteq> ''Wx'' \<and> signal_operator \<noteq> ''Wz'' \<longrightarrow>
      ComputeQSPResponse adat phiset signal_operator measurement =
        Inl (ResponseError (''Invalid signal_operator: '' @ signal_operator)))
   \<and> ((signal_operator = ''Wx'' \<or> signal_operator = ''Wz'') \<and> m \<noteq> ''x'' \<and> m \<noteq> ''z'' \<longrightarrow>
      ComputeQSPResponse adat phiset signal_operator (Some m) =
        Inl (ResponseError (''Invalid measurement: '' @ m)))
   \<and> ComputeQSPResponse adat phiset ''Wx'' None = ComputeQSPResponse adat phiset ''Wx'' (Some ''x'')
   \<and> ComputeQSPResponse adat phiset ''Wz'' None = ComputeQSPResponse adat phiset ''Wz'' (Some ''z'')
   \<and> ComputeQSPResponse adat phiset ''Wx'' None \<noteq> Inl (ResponseError msg)
   \<and> ComputeQSPResponse adat phiset ''Wz'' None \<noteq> Inl (ResponseError msg)"
proof -
  have a: "signal_operator \<noteq> ''Wx'' \<and> signal_operator \<noteq> ''Wz'' \<longrightarrow>
      ComputeQSPResponse adat phiset signal_operator measurement =
        Inl (ResponseError (''Invalid signal_operator: '' @ signal_operator))"
    by (simp add: ComputeQSPResponse_def select_signal_operator_def)
  have b: "(signal_operator = ''Wx'' \<or> signal_operator = ''Wz'') \<and> m \<noteq> ''x'' \<and> m \<noteq> ''z'' \<longrightarrow>
      ComputeQSPResponse adat phiset signal_operator (Some m) =
        Inl (ResponseError (''Invalid measurement: '' @ m))"
    by (auto simp: ComputeQSPResponse_def select_signal_operator_def select_measurement_def
        default_given)
  have c: "ComputeQSPResponse adat phiset ''Wx'' None = ComputeQSPResponse adat phiset ''Wx'' (Some ''x'')"
    using ComputeQSPResponse_None [of adat phiset Wx] by simp
  have d: "ComputeQSPResponse adat phiset ''Wz'' None = ComputeQSPResponse adat phiset ''Wz'' (Some ''z'')"
    using ComputeQSPResponse_None [of adat phiset Wz] by simp
  have e: "ComputeQSPResponse adat phiset (so_name so) (Some (basis_name b)) \<noteq> Inl (ResponseError msg)"
    for so b
    using response_loop_error [of so b "map (qsp_op so) phiset" adat "[]"]
    by (auto simp: ComputeQSPResponse_def default_given select_so_name select_basis_name
        split: sum.splits)
  from a b c d e [of Wx Bx] e [of Wz Bz] show ?thesis by simp
qed

theorem ComputeQSPResponse_invalid_configuration_witness:
  "ComputeQSPResponse [0] [1] ''bogus'' None = Inl (ResponseError ''Invalid signal_operator: bogus'')
   \<and> ComputeQSPResponse [0] [1] ''Wx'' (Some ''y'') = Inl (ResponseError ''Invalid measurement: y'')"
  using ComputeQSPResponse_invalid_configuration [of "''bogus''" "[0]" "[1]" None "''y''"]
    ComputeQSPResponse_invalid_configuration [of "''Wx''" "[0]" "[1]" None "''y''"]
  by simp

text \<open>
  Claim C10. In a valid configuration, an empty \<open>phiset\<close> with at least one sample
  raises \<open>IndexError\<close> (the read of \<open>pmats[0]\<close>) and returns no dataset, while an
  empty \<open>adat\<close> returns the dataset with an empty \<open>pdat\<close> for every \<open>phiset\<close>, the
  empty one included.
\<close>

theorem ComputeQSPResponse_empty_phiset:
  assumes "measurement = Some (basis_name b) \<or> (measurement = None \<and> b = native so)"
  shows "ComputeQSPResponse (a # adat) [] (so_name so) measurement = Inl IndexError
       \<and> ComputeQSPResponse [] phiset (so_name so) measurement =
           Inr \<lparr>ret_adat = [], ret_pdat = [],
                ret_model = (so_name so, Some (basis_name b)), ret_phiset = phiset\<rparr>"
proof -
  have eq: "ComputeQSPResponse xs ps (so_name so) measurement =
        ComputeQSPResponse xs ps (so_name so) (Some (basis_name b))" for xs ps
    using assms by (auto simp: ComputeQSPResponse_None)
  show ?thesis
    unfolding eq
    by (simp add: ComputeQSPResponse_def default_given select_so_name select_basis_name)
qed

theorem ComputeQSPResponse_empty_phiset_witness:
  "ComputeQSPResponse [1 / 2] [] ''Wz'' None = Inl IndexError
   \<and> ComputeQSPResponse [] [] ''Wz'' None =
       Inr \<lparr>ret_adat = [], ret_pdat = [], ret_model = (''Wz'', Some ''z''), ret_phiset = []\<rparr>"
  using ComputeQSPResponse_empty_phiset [of None Bz Wz "1 / 2" "[]" "[]"]
  by simp

section \<open>Properties of the phase generators\<close>

lemma getitem_in_range:
  "0 \<le> i \<Longrightarrow> nat i < length xs \<Longrightarrow> getitem xs i = Inr (xs ! nat i)"
  by (auto simp: getitem_def py_index_def)

lemma setitem_in_range:
  "0 \<le> i \<Longrightarrow> nat i < length xs \<Longrightarrow> setitem xs i v = Inr (xs[nat i := v])"
  by (auto simp: setitem_def py_index_def)

lemma length_fp_store: "length (fp_store d avec bvec phivec k) = length phivec"
  by (simp add: fp_store_def)


lemma fp_assemble_foldl:
  assumes "\<forall>k \<in> set ks. 0 \<le> k \<and> k < d"
    and "length avec = nat d" and "length bvec = nat d" and "length phivec = nat (2 * d)"
  shows "fp_assemble d avec bvec ks phivec = Inr (foldl (fp_store d avec bvec) phivec ks)"
  using assms
proof (induction ks arbitrary: phivec)
  case Nil
  then show ?case by simp
next
  case (Cons k ks)
  have k: "0 \<le> k" "k < d" using Cons.prems(1) by auto
  have g1: "getitem avec (d - k - 1) = Inr (avec ! nat (d - k - 1))"
    using k Cons.prems(2) by (intro getitem_in_range) auto
  have g2: "getitem bvec (d - k - 1) = Inr (bvec ! nat (d - k - 1))"
    using k Cons.prems(3) by (intro getitem_in_range) auto
  have s1: "setitem phivec (2 * k) v = Inr (phivec[nat (2 * k) := v])" for v
    using k Cons.prems(4) by (intro setitem_in_range) auto
  have s2: "setitem (phivec[nat (2 * k) := v]) (2 * k + 1) w =
            Inr (phivec[nat (2 * k) := v, nat (2 * k + 1) := w])" for v w
    using k Cons.prems(4) by (intro setitem_in_range) auto
  have "fp_assemble d avec bvec (k # ks) phivec =
        fp_assemble d avec bvec ks (fp_store d avec bvec phivec k)"
    by (simp add: g1 g2 s1 s2 fp_store_def)
  also have "\<dots> = Inr (foldl (fp_store d avec bvec) (fp_store d avec bvec phivec k) ks)"
    using Cons.prems by (intro Cons.IH) (auto simp: length_fp_store)
  finally show ?case by simp
qed




lemma length_fp_avec: "length (fp_avec d L sg) = nat d"
  by (simp add: fp_avec_def)

text \<open>
  The arguments of \<open>np.tan\<close> are never a pole of the tangent: \<open>2 d + 1\<close> is odd.
\<close>

lemma tan_defined:
  "cos (2 * pi * real_of_int k / real_of_int (2 * d + 1)) \<noteq> 0"
proof
  assume "cos (2 * pi * real_of_int k / real_of_int (2 * d + 1)) = 0"
  then obtain i :: int where i: "odd i"
    and eq: "2 * pi * real_of_int k / real_of_int (2 * d + 1) = of_int i * (pi / 2)"
    unfolding cos_zero_iff_int by blast
  have L: "real_of_int (2 * d + 1) \<noteq> 0"
    by (metis of_int_eq_0_iff odd_two_times_div_two_succ even_zero odd_add odd_one
        dvd_triv_left)
  from eq L have "2 * pi * real_of_int k = of_int i * (pi / 2) * real_of_int (2 * d + 1)"
    by (simp add: field_simps)
  then have "pi * (4 * real_of_int k) = pi * (of_int i * real_of_int (2 * d + 1))"
    by (simp add: algebra_simps)
  then have "4 * real_of_int k = of_int i * real_of_int (2 * d + 1)"
    using pi_neq_zero mult_left_cancel by blast
  then have "real_of_int (4 * k) = real_of_int (i * (2 * d + 1))"
    by simp
  then have "4 * k = i * (2 * d + 1)"
    using of_int_eq_iff by blast
  moreover have "even (4 * k)" by simp
  moreover have "odd (i * (2 * d + 1))" using i by simp
  ultimately show False by simp
qed

lemma fp_gamma_delta:
  assumes "0 < \<delta>" and "\<delta> \<le> 1" and "delta = Some \<delta> \<or> (delta = None \<and> \<delta> = 1 / 10)"
  shows "fp_gamma (2 * d + 1) delta None = Inr (Val (spec_gamma d \<delta>))"
proof -
  have ge: "1 \<le> 1 / \<delta>" using assms(1,2) by simp
  have dl: "(case delta of None \<Rightarrow> 0.1 | Some x \<Rightarrow> x) = \<delta>"
    using assms(3) by auto
  have "fp_gamma (2 * d + 1) delta None =
          Inr (np_div (Val 1)
                 (np_cosh (Val (1 / real_of_int (2 * d + 1)) * np_arccosh (Val (1 / \<delta>)))))"
    using assms(1) unfolding fp_gamma_def dl by simp
  also have "\<dots> = Inr (Val (spec_gamma d \<delta>))"
    using ge by (simp add: np_cosh_def spec_gamma_def)
  finally show ?thesis .
qed

lemma spec_gamma_range:
  "0 < spec_gamma d \<delta> \<and> spec_gamma d \<delta> \<le> 1"
  using cosh_real_ge_1 [of "(1 / (2 * real_of_int d + 1)) * arcosh (1 / \<delta>)"]
  by (simp add: spec_gamma_def)

lemma fp_avec_formula:
  assumes "\<bar>g\<bar> \<le> 1"
  shows "fp_avec d (2 * d + 1) (np_sqrt (Val 1 - Val g * Val g)) =
         map (\<lambda>k. Val (spec_alpha d g k)) [1..d]"
proof -
  have "g * g \<le> 1"
    using assms by (metis abs_le_square_iff abs_one power2_eq_square one_power2)
  then have "np_sqrt (Val 1 - Val g * Val g) = Val (sqrt (1 - g\<^sup>2))"
    by (simp add: power2_eq_square)
  then show ?thesis
    by (simp add: fp_avec_def np_tan_def spec_alpha_def)
qed

lemma FPSearch_generate_alpha:
  "fp_gamma (2 * d + 1) delta gamma = Inr g \<Longrightarrow>
   FPSearch_generate self d delta gamma True =
     (Inr (fp_avec d (2 * d + 1) (np_sqrt (Val 1 - g * g))), self)"
  by (simp add: FPSearch_generate_def Let_def)

lemma FPSearch_generate_phivec:
  assumes "fp_gamma (2 * d + 1) delta gamma = Inr g" and "0 \<le> d"
    and "avec = fp_avec d (2 * d + 1) (np_sqrt (Val 1 - g * g))"
    and "bvec = map uminus (rev avec)"
  shows "FPSearch_generate self d delta gamma False =
     (Inr (foldl (fp_store d avec bvec) (replicate (nat (2 * d)) (Val 0)) [0..d - 1]),
      self\<lparr>self_avec := Some avec, self_bvec := Some bvec\<rparr>)"
proof -
  have la: "length avec = nat d" by (simp add: assms(3) length_fp_avec)
  have lb: "length bvec = nat d" by (simp add: assms(4) la)
  have "fp_assemble d avec bvec [0..d - 1] (replicate (nat (2 * d)) (Val 0)) =
        Inr (foldl (fp_store d avec bvec) (replicate (nat (2 * d)) (Val 0)) [0..d - 1])"
    by (rule fp_assemble_foldl) (auto simp: la lb)
  then show ?thesis
    using assms by (simp add: FPSearch_generate_def Let_def)
qed




text \<open>
  Claim C4. Without \<open>gamma\<close>, and with \<open>delta\<close> in \<open>(0, 1]\<close> (the default \<open>0.1\<close> when it is
  missing too), the angles returned are \<open>avec_k = 2 atan2(1, tan(2 pi k / (2 d + 1))
  sqrt(1 - gamma^2))\<close> for \<open>k = 1 .. d\<close> at \<open>gamma = 1 / cosh((1 / (2 d + 1)) arccosh(1 /
  delta))\<close>; with a \<open>gamma\<close> in \<open>[-1, 1]\<close> they are the same angles at that \<open>gamma\<close>.
  The \<open>bvec\<close> a call stores is its \<open>avec\<close> reversed and negated.
\<close>

theorem FPSearch_generate_formulas:
  "(0 < \<delta> \<and> \<delta> \<le> 1 \<and> (delta = Some \<delta> \<or> delta = None \<and> \<delta> = 1 / 10) \<longrightarrow>
      fst (FPSearch_generate self d delta None True) =
        Inr (map (\<lambda>k. Val (spec_alpha d (spec_gamma d \<delta>) k)) [1..d]))
   \<and> (\<bar>g\<bar> \<le> 1 \<longrightarrow>
      fst (FPSearch_generate self d delta (Some g) True) =
        Inr (map (\<lambda>k. Val (spec_alpha d g k)) [1..d]))
   \<and> (FPSearch_generate self d delta gamma False = (Inr phivec, self') \<longrightarrow>
      (\<exists>avec. fst (FPSearch_generate self d delta gamma True) = Inr avec
         \<and> self_avec self' = Some avec \<and> self_bvec self' = Some (map uminus (rev avec))))"
proof -
  have a: "fst (FPSearch_generate self d delta None True) =
        Inr (map (\<lambda>k. Val (spec_alpha d (spec_gamma d \<delta>) k)) [1..d])"
    if "0 < \<delta>" "\<delta> \<le> 1" "delta = Some \<delta> \<or> delta = None \<and> \<delta> = 1 / 10"
  proof -
    have r: "\<bar>spec_gamma d \<delta>\<bar> \<le> 1"
      using spec_gamma_range [of d \<delta>] by simp
    have "FPSearch_generate self d delta None True =
        (Inr (fp_avec d (2 * d + 1)
               (np_sqrt (Val 1 - Val (spec_gamma d \<delta>) * Val (spec_gamma d \<delta>)))), self)"
      by (rule FPSearch_generate_alpha) (rule fp_gamma_delta [OF that])
    then show ?thesis
      by (simp only: fp_avec_formula [OF r] fst_conv)
  qed
  have b: "fst (FPSearch_generate self d delta (Some g) True) =
        Inr (map (\<lambda>k. Val (spec_alpha d g k)) [1..d])" if "\<bar>g\<bar> \<le> 1"
  proof -
    have "fp_gamma (2 * d + 1) delta (Some g) = Inr (Val g)"
      by (simp add: fp_gamma_def)
    then have "FPSearch_generate self d delta (Some g) True =
        (Inr (fp_avec d (2 * d + 1) (np_sqrt (Val 1 - Val g * Val g))), self)"
      by (rule FPSearch_generate_alpha)
    then show ?thesis
      by (simp only: fp_avec_formula [OF that] fst_conv)
  qed
  have c: "\<exists>avec. fst (FPSearch_generate self d delta gamma True) = Inr avec
         \<and> self_avec self' = Some avec \<and> self_bvec self' = Some (map uminus (rev avec))"
    if "FPSearch_generate self d delta gamma False = (Inr phivec, self')"
    using that
    by (auto simp: FPSearch_generate_def Let_def split: sum.splits if_splits)
  from a b c show ?thesis by blast
qed

theorem FPSearch_generate_formulas_witness:
  "fst (FPSearch_generate \<lparr>self_verbose = True, self_avec = None, self_bvec = None\<rparr>
          2 None None True) =
     Inr [Val (spec_alpha 2 (spec_gamma 2 (1 / 10)) 1), Val (spec_alpha 2 (spec_gamma 2 (1 / 10)) 2)]
   \<and> fst (FPSearch_generate \<lparr>self_verbose = True, self_avec = None, self_bvec = None\<rparr>
          1 None (Some (1 / 2)) True) = Inr [Val (spec_alpha 1 (1 / 2) 1)]
   \<and> (\<exists>phivec self'.
         FPSearch_generate \<lparr>self_verbose = True, self_avec = None, self_bvec = None\<rparr>
           1 None (Some 1) False = (Inr phivec, self')
       \<and> self_avec self' = Some [Val pi] \<and> self_bvec self' = Some [Val (- pi)])"
proof -
  let ?s = "\<lparr>self_verbose = True, self_avec = None, self_bvec = None\<rparr>"
  have u: "[1..2] = [1, 2::int]" "[1..1] = [1::int]"
    by (simp_all add: upto.simps)
  have a: "fst (FPSearch_generate ?s 2 None None True) =
     Inr [Val (spec_alpha 2 (spec_gamma 2 (1 / 10)) 1), Val (spec_alpha 2 (spec_gamma 2 (1 / 10)) 2)]"
    using FPSearch_generate_formulas [of "1 / 10" None ?s 2] by (simp add: u)
  have b: "fst (FPSearch_generate ?s 1 None (Some (1 / 2)) True) = Inr [Val (spec_alpha 1 (1 / 2) 1)]"
    using FPSearch_generate_formulas [of _ _ ?s 1 "1 / 2"] by (simp add: u)
  have al: "FPSearch_generate ?s 1 None (Some 1) True = (Inr [Val pi], ?s)"
    by (simp add: FPSearch_generate_def fp_gamma_def fp_avec_def np_tan_def arctan2_def
        upto.simps)
  obtain phivec self' where run: "FPSearch_generate ?s 1 None (Some 1) False = (Inr phivec, self')"
    using FPSearch_generate_phivec [of 1 None "Some 1" "Val 1" _ _ ?s]
    by (simp add: fp_gamma_def)
  from FPSearch_generate_formulas
    [where self = ?s and d = 1 and delta = None and gamma = "Some 1" and phivec = phivec
      and self' = self'] run al
  have "self_avec self' = Some [Val pi] \<and> self_bvec self' = Some [Val (- pi)]"
    by auto
  with a b run show ?thesis by blast
qed

text \<open>
  Claim C8 says that every call, also one with \<open>return_alpha\<close>, leaves its \<open>avec\<close> and
  \<open>bvec\<close> in the instance. A call with \<open>return_alpha\<close> returns at line 74, before the
  assignments of lines 76-77: on a new instance it returns \<open>avec\<close> and the instance
  still has neither field.
\<close>

theorem FPSearch_generate_return_alpha_keeps_fields:
  "FPSearch_generate \<lparr>self_verbose = True, self_avec = None, self_bvec = None\<rparr>
     1 None (Some 1) True =
   (Inr [Val pi], \<lparr>self_verbose = True, self_avec = None, self_bvec = None\<rparr>)"
  by (simp add: FPSearch_generate_def fp_gamma_def fp_avec_def np_tan_def arctan2_def
      upto.simps)

text \<open>
  Claim C8 as amended. A call with \<open>return_alpha\<close> leaves the instance as it was. A
  call without it that returns a phase vector leaves an instance whose \<open>avec\<close> is the
  vector the same call with \<open>return_alpha\<close> returns and whose \<open>bvec\<close> is that vector
  reversed and negated, whatever the two fields held before.
\<close>

theorem FPSearch_generate_fields:
  "(FPSearch_generate self d delta gamma True = (r, self') \<longrightarrow> self' = self)
   \<and> (FPSearch_generate self d delta gamma False = (Inr phivec, self') \<longrightarrow>
        (\<exists>avec. FPSearch_generate self d delta gamma True = (Inr avec, self)
           \<and> self' = self\<lparr>self_avec := Some avec, self_bvec := Some (map uminus (rev avec))\<rparr>))"
  by (auto simp: FPSearch_generate_def Let_def split: sum.splits if_splits)

theorem FPSearch_generate_fields_witness:
  "snd (FPSearch_generate \<lparr>self_verbose = True, self_avec = Some [Val 7], self_bvec = Some []\<rparr>
         1 None (Some 1) True) =
     \<lparr>self_verbose = True, self_avec = Some [Val 7], self_bvec = Some []\<rparr>
   \<and> (\<exists>phivec.
     FPSearch_generate \<lparr>self_verbose = True, self_avec = Some [Val 7], self_bvec = Some []\<rparr>
       1 None (Some 1) False =
       (Inr phivec, \<lparr>self_verbose = True, self_avec = Some [Val pi],
                     self_bvec = Some [Val (- pi)]\<rparr>))"
proof -
  let ?s = "\<lparr>self_verbose = True, self_avec = Some [Val 7 :: real np], self_bvec = Some []\<rparr>"
  have al: "FPSearch_generate ?s 1 None (Some 1) True = (Inr [Val pi], ?s)"
    by (simp add: FPSearch_generate_def fp_gamma_def fp_avec_def np_tan_def arctan2_def
        upto.simps)
  have a: "snd (FPSearch_generate ?s 1 None (Some 1) True) = ?s"
    using FPSearch_generate_fields [of ?s 1 None "Some 1"
        "fst (FPSearch_generate ?s 1 None (Some 1) True)"
        "snd (FPSearch_generate ?s 1 None (Some 1) True)"]
    by simp
  obtain phivec self' where run: "FPSearch_generate ?s 1 None (Some 1) False = (Inr phivec, self')"
    using FPSearch_generate_phivec [of 1 None "Some 1" "Val 1" _ _ ?s]
    by (simp add: fp_gamma_def)
  from FPSearch_generate_fields
    [where self = ?s and d = 1 and delta = None and gamma = "Some 1" and phivec = phivec
      and self' = self'] run al
  have "self' = \<lparr>self_verbose = True, self_avec = Some [Val pi], self_bvec = Some [Val (- pi)]\<rparr>"
    by auto
  with a run show ?thesis by blast
qed

text \<open>
  Claim C5. \<open>erf_step.generate\<close> returns the literal table of eight phases for \<open>n = 7\<close>,
  the literal table of twenty-four phases for \<open>n = 23\<close>, and raises its exception for
  every other \<open>n\<close>.
\<close>

theorem erf_step_generate_lookup:
  "erf_step_generate 7 =
     Inr [1.58019, 0.00172821, 0.251897, - 0.834542, - 0.834542, 0.251897,
          0.00172821, 0.00939863]
   \<and> erf_step_generate 23 =
     Inr [1.5708, 2.87883 / 10 ^ 8, 5.83909 / 10 ^ 7, 1.84144 / 10 ^ 6, 0.0000209995,
          - 0.0000120126, 0.000564903, - 0.0022922, 0.0150024,
          - 0.064666, 0.263754, - 0.926685, - 0.926912, 0.263756,
          - 0.0645576, 0.014932, - 0.00225885, 0.000553565,
          - (8.29284 / 10 ^ 6), 0.0000200459, 2.09476 / 10 ^ 6, 5.3026 / 10 ^ 7,
          4.38578 / 10 ^ 8, 3.66401 / 10 ^ 9]
   \<and> (n \<noteq> 7 \<and> n \<noteq> 23 \<longrightarrow>
        erf_step_generate n = Inl (Exception ''[pyqsp.phases.erf_step] n must be 7 or 23''))"
  by (simp add: erf_step_generate_def phi_n7_erf_def phi_n23_erf_def)

theorem erf_step_generate_lookup_witness:
  "erf_step_generate 8 = Inl (Exception ''[pyqsp.phases.erf_step] n must be 7 or 23'')
   \<and> length (projr (erf_step_generate 7)) = 8
   \<and> length (projr (erf_step_generate 23)) = 24"
  using erf_step_generate_lookup [of 8] by simp

text \<open>
  Claim C9. With the same two collaborators, \<open>SqrtSequence.generate\<close> and
  \<open>ExtractionSequence.generate\<close> give the same result for every \<open>n\<close> and from every
  state: the polynomial extraction is called with \<open>n\<close>, and where it returns \<open>Q\<close> both
  results are that of the phase solver on \<open>Q\<close> with \<open>poly_type = "Q"\<close> and
  \<open>measurement = "z"\<close>; where it raises, both raise the same.
\<close>

theorem SqrtSequence_is_ExtractionSequence:
  "SqrtSequence_generate PolyExtraction_generate QuantumSignalProcessingPhases n w =
     ExtractionSequence_generate PolyExtraction_generate QuantumSignalProcessingPhases n w
   \<and> (PolyExtraction_generate n w = Inr (Q, w') \<longrightarrow>
        SqrtSequence_generate PolyExtraction_generate QuantumSignalProcessingPhases n w =
          QuantumSignalProcessingPhases Q ''Q'' ''z'' w')
   \<and> (PolyExtraction_generate n w = Inl e \<longrightarrow>
        SqrtSequence_generate PolyExtraction_generate QuantumSignalProcessingPhases n w = Inl e)"
  by (simp add: SqrtSequence_generate_def ExtractionSequence_generate_def)

theorem SqrtSequence_is_ExtractionSequence_witness:
  "SqrtSequence_generate (\<lambda>n w. Inr (n, Suc w)) (\<lambda>Q t m w. Inr ((Q, t, m), w)) 5 (0::nat) =
     (Inr ((5, ''Q'', ''z''), 1) :: error + (int \<times> string \<times> string) \<times> nat)
   \<and> ExtractionSequence_generate (\<lambda>n w. Inr (n, Suc w)) (\<lambda>Q t m w. Inr ((Q, t, m), w)) 5 (0::nat) =
     (Inr ((5, ''Q'', ''z''), 1) :: error + (int \<times> string \<times> string) \<times> nat)
   \<and> SqrtSequence_generate (\<lambda>n w. Inl ValueError) (\<lambda>Q t m w. Inr ((Q, t, m), w)) 5 (0::nat) =
     (Inl ValueError :: error + (int \<times> string \<times> string) \<times> nat)"
  using SqrtSequence_is_ExtractionSequence
    [of "\<lambda>n w. Inr (n, Suc w)" "\<lambda>Q t m w. Inr ((Q, t, m), w)" 5 "0::nat" 5 1]
    SqrtSequence_is_ExtractionSequence
    [of "\<lambda>n w. Inl ValueError" "\<lambda>Q t m w. Inr ((Q :: int, t, m), w)" 5 "0::nat" _ _ ValueError]
  by auto

section \<open>Properties of the Chebyshev conversion\<close>

text \<open>
  The two recurrences are those of the Chebyshev polynomials: \<open>T\<^sub>n(cos t) = cos(n t)\<close> and
  \<open>U\<^sub>n(cos t) sin t = sin((n + 1) t)\<close>.
\<close>

lemma cheb_T_cos: "cheb_T n (cos t) = cos (real n * t)"
proof (induction n "cos t" rule: cheb_T.induct)
  case 1
  show ?case by simp
next
  case 2
  show ?case by simp
next
  case (3 n)
  have a: "real (Suc (Suc n)) * t = real (Suc n) * t + t"
    and b: "real n * t = real (Suc n) * t - t"
    by (simp_all add: algebra_simps)
  have "cos (real (Suc (Suc n)) * t) + cos (real n * t) = 2 * cos t * cos (real (Suc n) * t)"
    unfolding a b by (simp add: cos_add cos_diff)
  then show ?case using 3 by simp
qed

lemma cheb_U_sin: "cheb_U n (cos t) * sin t = sin (real (Suc n) * t)"
proof (induction n "cos t" rule: cheb_U.induct)
  case 1
  show ?case by simp
next
  case 2
  show ?case using sin_double [of t] by (simp add: mult.commute mult.left_commute)
next
  case (3 n)
  have a: "real (Suc (Suc (Suc n))) * t = real (Suc (Suc n)) * t + t"
    and b: "real (Suc n) * t = real (Suc (Suc n)) * t - t"
    by (simp_all add: algebra_simps)
  have "sin (real (Suc (Suc (Suc n))) * t) + sin (real (Suc n) * t) =
        2 * cos t * sin (real (Suc (Suc n)) * t)"
    unfolding a b by (simp add: sin_add sin_diff)
  moreover have "cheb_U (Suc (Suc n)) (cos t) * sin t =
      2 * cos t * (cheb_U (Suc n) (cos t) * sin t) - cheb_U n (cos t) * sin t"
    by (simp add: algebra_simps)
  ultimately show ?case using 3 by simp
qed

lemma length_chebyt_coef: "length (chebyt_coef n) = Suc n"
  by (induction n rule: chebyt_coef.induct) simp_all

lemma length_chebyu_coef: "length (chebyu_coef n) = Suc n"
  by (induction n rule: chebyu_coef.induct) simp_all

lemma hd_chebyt_coef: "hd (chebyt_coef (Suc n)) = 2 ^ n"
proof (induction n)
  case 0
  show ?case by simp
next
  case (Suc n)
  have "chebyt_coef (Suc n) \<noteq> []"
    using length_chebyt_coef [of "Suc n"] by auto
  then obtain a as where "chebyt_coef (Suc n) = a # as"
    by (cases "chebyt_coef (Suc n)") auto
  with Suc show ?case by simp
qed

lemma hd_chebyu_coef: "hd (chebyu_coef n) = 2 ^ n"
proof (induction n rule: chebyu_coef.induct)
  case 1
  show ?case by simp
next
  case 2
  show ?case by simp
next
  case (3 n)
  have "chebyu_coef (Suc n) \<noteq> []"
    using length_chebyu_coef [of "Suc n"] by auto
  then obtain a as where "chebyu_coef (Suc n) = a # as"
    by (cases "chebyu_coef (Suc n)") auto
  with 3 show ?case by simp
qed















lemma table_T:
  "length (rev (chebyt_coef l)) = Suc l \<and> last (rev (chebyt_coef l)) \<noteq> 0"
proof (cases l)
  case 0
  then show ?thesis by simp
next
  case (Suc n)
  have "chebyt_coef (Suc n) \<noteq> []"
    using length_chebyt_coef [of "Suc n"] by auto
  then show ?thesis
    using Suc by (simp add: length_chebyt_coef last_rev hd_chebyt_coef)
qed

lemma table_U:
  "length (rev (chebyu_coef l)) = Suc l \<and> last (rev (chebyu_coef l)) \<noteq> 0"
proof -
  have "chebyu_coef l \<noteq> []"
    using length_chebyu_coef [of l] by auto
  then show ?thesis
    by (simp add: length_chebyu_coef last_rev hd_chebyu_coef)
qed



text \<open>
  The divisor of line 159 is the leading coefficient of the table entry \<open>cfunc(l)\<close>. For
  the kinds \<open>T\<close> and \<open>U\<close> it is never zero, so no pass of the loop divides by zero. Any
  other kind leaves \<open>cfunc\<close> unbound, and the first pass of the loop raises \<open>NameError\<close>.
\<close>

lemma cfunc_leading_coefficient:
  assumes "cfunc_of_kind kind = Some cf"
  shows "length (cf l) = Suc l \<and> last (cf l) \<noteq> 0"
proof (cases "kind = ''T''")
  case True
  then have "cf = (\<lambda>x. rev (chebyt_coef x))"
    using assms by (simp add: cfunc_of_kind_def)
  then show ?thesis using table_T [of l] by simp
next
  case False
  then have "cf = (\<lambda>x. rev (chebyu_coef x))"
    using assms by (simp add: cfunc_of_kind_def split: if_splits)
  then show ?thesis using table_U [of l] by simp
qed

lemma poly2chebyfn_unknown_kind:
  assumes "kind \<noteq> ''T''" and "kind \<noteq> ''U''" and "pcoefs \<noteq> []"
  shows "poly2chebyfn pcoefs kind = Inl NameError"
proof -
  obtain p ps where p: "pcoefs = p # ps"
    using assms(3) by (cases pcoefs) auto
  have "rev [0..<Suc (length ps)] = length ps # rev [0..<length ps]"
    by simp
  then show ?thesis
    using assms(1,2)
    by (simp add: p poly2chebyfn_def cheby_convert_def cfunc_of_kind_def getitem_in_range
        del: upt_Suc)
qed

end
